theory Spec2Isabelle
  imports Main "HOL-Library.Sublist"
begin

section \<open>Python values, as the uploader meets them\<close>

text \<open>
  Everything \<^verbatim>\<open>main.py\<close> handles comes out of a JSON document (the catalog file, the
  answers of the three remote endpoints) or out of the text file \<^verbatim>\<open>failed_ids.txt\<close>.
  A JSON value is modelled as \<open>pyval\<close>; a Python dict is an association list that is
  looked up with \<open>map_of\<close>, its keys being distinct. JSON numbers with a fraction are left out of the embedding.
  A Python exception is a value of \<open>exn\<close>, and a computation that may raise returns
  \<open>exn + 'a\<close> with \<open>Inl\<close> for the exception.
\<close>

datatype pyval =
    PNone
  | PBool bool
  | PInt int
  | PStr string
  | PList "pyval list"
  | PDict "(string \<times> pyval) list"

datatype exn =
    KeyError
  | IndexError
  | TypeError
  | ValueError
  | AttributeError
  | JSONDecodeError
  | FileNotFoundError
  | OtherError string

text \<open>Truth value of an object, as \<^verbatim>\<open>if x:\<close> tests it.\<close>

fun truthy :: "pyval \<Rightarrow> bool" where
  "truthy PNone = False"
| "truthy (PBool b) = b"
| "truthy (PInt n) = (n \<noteq> 0)"
| "truthy (PStr s) = (s \<noteq> [])"
| "truthy (PList xs) = (xs \<noteq> [])"
| "truthy (PDict kvs) = (kvs \<noteq> [])"

text \<open>\<^verbatim>\<open>x.get(k, d)\<close>: only a dict has the method.\<close>

fun py_get :: "pyval \<Rightarrow> string \<Rightarrow> pyval \<Rightarrow> exn + pyval" where
  "py_get (PDict kvs) k d = Inr (case map_of kvs k of None \<Rightarrow> d | Some v \<Rightarrow> v)"
| "py_get _ k d = Inl AttributeError"

text \<open>\<^verbatim>\<open>x[k]\<close> with a string key \<open>k\<close>.\<close>

fun py_item_str :: "pyval \<Rightarrow> string \<Rightarrow> exn + pyval" where
  "py_item_str (PDict kvs) k = (case map_of kvs k of None \<Rightarrow> Inl KeyError | Some v \<Rightarrow> Inr v)"
| "py_item_str _ k = Inl TypeError"

text \<open>\<^verbatim>\<open>x[0]\<close>: the first element of a list or string; a JSON dict has no key \<open>0\<close>.\<close>

fun py_item_0 :: "pyval \<Rightarrow> exn + pyval" where
  "py_item_0 (PList xs) = (case xs of [] \<Rightarrow> Inl IndexError | x # _ \<Rightarrow> Inr x)"
| "py_item_0 (PStr s) = (case s of [] \<Rightarrow> Inl IndexError | c # _ \<Rightarrow> Inr (PStr [c]))"
| "py_item_0 (PDict kvs) = Inl KeyError"
| "py_item_0 _ = Inl TypeError"

text \<open>\<^verbatim>\<open>len(x)\<close>.\<close>

fun py_len :: "pyval \<Rightarrow> exn + nat" where
  "py_len (PList xs) = Inr (length xs)"
| "py_len (PStr s) = Inr (length s)"
| "py_len (PDict kvs) = Inr (length kvs)"
| "py_len _ = Inl TypeError"

text \<open>\<^verbatim>\<open>x == n\<close> for an integer literal \<open>n\<close> that is neither 0 nor 1.\<close>

fun py_eq_int :: "pyval \<Rightarrow> int \<Rightarrow> bool" where
  "py_eq_int (PInt m) n = (m = n)"
| "py_eq_int _ n = False"

text \<open>\<^verbatim>\<open>for f in x\<close>: the elements of a list, the keys of a dict, the characters of a string.\<close>

fun py_iter :: "pyval \<Rightarrow> exn + pyval list" where
  "py_iter (PList xs) = Inr xs"
| "py_iter (PDict kvs) = Inr (map (\<lambda>kv. PStr (fst kv)) kvs)"
| "py_iter (PStr s) = Inr (map (\<lambda>c. PStr [c]) s)"
| "py_iter _ = Inl TypeError"

subsection \<open>Text and integers\<close>

definition is_space :: "char \<Rightarrow> bool" where
  "is_space c = (let n = (of_char c :: nat) in n = 32 \<or> (9 \<le> n \<and> n \<le> 13) \<or> (28 \<le> n \<and> n \<le> 31))"

text \<open>\<^verbatim>\<open>s.strip()\<close>.\<close>

definition strip :: "string \<Rightarrow> string" where
  "strip s = rev (dropWhile is_space (rev (dropWhile is_space s)))"

definition is_digit :: "char \<Rightarrow> bool" where
  "is_digit c = (let n = (of_char c :: nat) in 48 \<le> n \<and> n \<le> 57)"

definition digit_val :: "char \<Rightarrow> nat" where
  "digit_val c = of_char c - 48"

text \<open>
  The digits of a decimal literal after its first digit; a single underscore may stand
  between two digits.
\<close>

fun parse_digits :: "nat \<Rightarrow> string \<Rightarrow> nat option" where
  "parse_digits acc [] = Some acc"
| "parse_digits acc [c] = (if is_digit c then Some (10 * acc + digit_val c) else None)"
| "parse_digits acc (c # d # ds) =
     (if is_digit c then parse_digits (10 * acc + digit_val c) (d # ds)
      else if c = CHR ''_'' \<and> is_digit d then parse_digits (10 * acc + digit_val d) ds
      else None)"

definition parse_unsigned :: "string \<Rightarrow> nat option" where
  "parse_unsigned s =
     (case s of [] \<Rightarrow> None
      | c # cs \<Rightarrow> if is_digit c then parse_digits (digit_val c) cs else None)"

text \<open>
  \<^verbatim>\<open>int(s)\<close> for a string: blanks around, an optional sign, decimal digits. Only the
  ASCII digits and blanks are modelled.
\<close>

definition int_of_str :: "string \<Rightarrow> exn + int" where
  "int_of_str s =
     (case strip s of
        [] \<Rightarrow> Inl ValueError
      | c # cs \<Rightarrow>
          if c = CHR ''-'' then
            (case parse_unsigned cs of None \<Rightarrow> Inl ValueError | Some n \<Rightarrow> Inr (- int n))
          else if c = CHR ''+'' then
            (case parse_unsigned cs of None \<Rightarrow> Inl ValueError | Some n \<Rightarrow> Inr (int n))
          else
            (case parse_unsigned (c # cs) of None \<Rightarrow> Inl ValueError | Some n \<Rightarrow> Inr (int n)))"

text \<open>\<^verbatim>\<open>int(x)\<close>.\<close>

fun py_int :: "pyval \<Rightarrow> exn + int" where
  "py_int (PInt n) = Inr n"
| "py_int (PBool b) = Inr (if b then 1 else 0)"
| "py_int (PStr s) = int_of_str s"
| "py_int _ = Inl TypeError"

definition digit_char :: "nat \<Rightarrow> char" where
  "digit_char n = char_of (48 + n)"

fun dec_nat :: "nat \<Rightarrow> string" where
  "dec_nat n = (if n < 10 then [digit_char n] else dec_nat (n div 10) @ [digit_char (n mod 10)])"

declare dec_nat.simps [simp del]

definition dec_int :: "int \<Rightarrow> string" where
  "dec_int i = (if i < 0 then CHR ''-'' # dec_nat (nat (- i)) else dec_nat (nat i))"

definition hex_char :: "nat \<Rightarrow> char" where
  "hex_char n = (if n < 10 then char_of (48 + n) else char_of (87 + n))"

text \<open>
  \<^verbatim>\<open>repr(s)\<close> of a string: single quotes unless the string holds a single quote and no
  double quote; the quote and the backslash are escaped, control characters are
  written as escapes. Bytes from 128 on are taken to belong to printable characters.
\<close>

definition repr_char :: "char \<Rightarrow> char \<Rightarrow> string" where
  "repr_char q c =
     (let n = (of_char c :: nat) in
      if c = q \<or> n = 92 then [char_of (92::nat), c]
      else if n = 9 then [char_of (92::nat), CHR ''t'']
      else if n = 10 then [char_of (92::nat), CHR ''n'']
      else if n = 13 then [char_of (92::nat), CHR ''r'']
      else if n < 32 \<or> n = 127 then [char_of (92::nat), CHR ''x'', hex_char (n div 16), hex_char (n mod 16)]
      else [c])"

definition repr_str :: "string \<Rightarrow> string" where
  "repr_str s =
     (let q = (if char_of (39::nat) \<in> set s \<and> char_of (34::nat) \<notin> set s then char_of (34::nat) else char_of (39::nat))
      in [q] @ concat (map (repr_char q) s) @ [q])"

fun join :: "string \<Rightarrow> string list \<Rightarrow> string" where
  "join sep [] = []"
| "join sep [x] = x"
| "join sep (x # y # ys) = x @ sep @ join sep (y # ys)"

text \<open>\<^verbatim>\<open>repr(x)\<close> and \<^verbatim>\<open>str(x)\<close>, the latter being what an f-string writes.\<close>

fun py_repr :: "pyval \<Rightarrow> string" where
  "py_repr PNone = ''None''"
| "py_repr (PBool b) = (if b then ''True'' else ''False'')"
| "py_repr (PInt n) = dec_int n"
| "py_repr (PStr s) = repr_str s"
| "py_repr (PList xs) = ''['' @ join '', '' (map py_repr xs) @ '']''"
| "py_repr (PDict kvs) =
     ''{'' @ join '', '' (map (\<lambda>kv. repr_str (fst kv) @ '': '' @ py_repr (snd kv)) kvs) @ ''}''"

fun py_str :: "pyval \<Rightarrow> string" where
  "py_str (PStr s) = s"
| "py_str v = py_repr v"

section \<open>Descriptors, the outside world, and what a run leaves behind\<close>

text \<open>
  \<^verbatim>\<open>get_all_song_info\<close> builds, for every record of the catalog, a dict with exactly
  the keys \<^verbatim>\<open>id\<close>, \<^verbatim>\<open>size\<close>, \<^verbatim>\<open>ext\<close>, \<^verbatim>\<open>bitrate\<close> and \<^verbatim>\<open>md5\<close> (a key the record lacks
  maps to \<^verbatim>\<open>None\<close>); the workflow later adds \<^verbatim>\<open>artist\<close> and \<^verbatim>\<open>album\<close>. The dict is a
  record here, the two late keys being optional fields.
\<close>

record song_info =
  song_id :: pyval
  song_size :: pyval
  ext :: pyval
  bitrate :: pyval
  md5 :: pyval
  artist :: "pyval option"
  album :: "pyval option"

text \<open>
  The three endpoints of the remote service, with what the request carries (the cookie
  and the time stamp, the same for every workflow, are left out).
\<close>

datatype remote_call =
    CloudDetail int
  | SongDetail "int list"
  | CloudImport song_info

text \<open>
  What a request comes back with: its JSON body, or an exception. \<open>JSONDecodeError\<close>
  is the exception of the body's decoding (\<^verbatim>\<open>response.json()\<close>); every other one is
  taken to come from the transport.
\<close>

datatype response = Raises exn | Body pyval

text \<open>The remote service answers a request knowing the requests made before it.\<close>

type_synonym remote = "remote_call list \<Rightarrow> remote_call \<Rightarrow> response"

text \<open>The lines the program prints, one constructor for each \<^verbatim>\<open>print\<close> of the source.\<close>

datatype msg =
    MsgImporting int
  | MsgAlreadyUploaded
  | MsgSongDetailUrl "int list"
  | MsgSongDetailFailed pyval
  | MsgSongDetailNotJson
  | MsgSongFields pyval pyval pyval
  | MsgCloudDetailFailed pyval
  | MsgCloudDetailNotJson
  | MsgImportOk pyval
  | MsgImportFailed pyval pyval
  | MsgFileExists pyval
  | MsgWorkflowException exn
  | MsgCatalogFormatError
  | MsgNoFailureRecord
  | MsgResumeAt nat pyval
  | MsgNoMatch

text \<open>
  The world a run acts on: the file \<^verbatim>\<open>failed_ids.txt\<close> (\<open>None\<close> when it does not exist,
  otherwise its lines in order, each with its line end), the requests sent so far, and
  the console.
\<close>

record world =
  ledger :: "string list option"
  calls :: "remote_call list"
  console :: "msg list"

definition print :: "msg \<Rightarrow> world \<Rightarrow> world" where
  "print m w = w\<lparr>console := console w @ [m]\<rparr>"

definition http_get :: "remote \<Rightarrow> remote_call \<Rightarrow> world \<Rightarrow> response \<times> world" where
  "http_get env c w = (env (calls w) c, w\<lparr>calls := calls w @ [c]\<rparr>)"

section \<open>The failure ledger\<close>

text \<open>
  \<^verbatim>\<open>_save_failed_id\<close> opens the file for appending, which creates it when it is
  missing, and writes the identifier and a line feed. The file system is taken not to
  fail, here and where the file is read.
\<close>

definition ledger_lines :: "world \<Rightarrow> string list" where
  "ledger_lines w = (case ledger w of None \<Rightarrow> [] | Some ls \<Rightarrow> ls)"

definition save_failed_id :: "pyval \<Rightarrow> world \<Rightarrow> world" where
  "save_failed_id sid w = w\<lparr>ledger := Some (ledger_lines w @ [py_str sid @ [char_of (10::nat)]])\<rparr>"

text \<open>
  \<^verbatim>\<open>_get_last_failed_id\<close>: \<^verbatim>\<open>None\<close> when the file does not exist; otherwise every
  line is stripped and the last one, \<^verbatim>\<open>ids[-1]\<close>, is converted with \<^verbatim>\<open>int\<close>.
\<close>

definition get_last_failed_id :: "world \<Rightarrow> exn + int option" where
  "get_last_failed_id w =
     (case ledger w of
        None \<Rightarrow> Inr None
      | Some ls \<Rightarrow>
          (let ids = map strip ls in
           if ids = [] then Inl IndexError
           else (case int_of_str (last ids) of Inl e \<Rightarrow> Inl e | Inr n \<Rightarrow> Inr (Some n))))"

section \<open>The resume calculator\<close>

text \<open>
  The loop of \<^verbatim>\<open>get_resume_song_info_list\<close> over \<^verbatim>\<open>enumerate(song_info_list)\<close>: the
  index of the first descriptor whose \<^verbatim>\<open>int(song_info["id"])\<close> is the marker, \<open>None\<close>
  when the loop runs to its end, the exception of \<^verbatim>\<open>int\<close> when a descriptor met on the
  way has no integer for an id.
\<close>

fun resume_scan :: "int \<Rightarrow> nat \<Rightarrow> song_info list \<Rightarrow> exn + nat option" where
  "resume_scan last_failed_id index [] = Inr None"
| "resume_scan last_failed_id index (si # rest) =
     (case py_int (song_id si) of
        Inl e \<Rightarrow> Inl e
      | Inr n \<Rightarrow>
          if n = last_failed_id then Inr (Some index)
          else resume_scan last_failed_id (Suc index) rest)"

definition get_resume_song_info_list :: "song_info list \<Rightarrow> world \<Rightarrow> (exn + song_info list) \<times> world" where
  "get_resume_song_info_list song_info_list w =
     (case get_last_failed_id w of
        Inl e \<Rightarrow> (Inl e, w)
      | Inr None \<Rightarrow> (Inr song_info_list, print MsgNoFailureRecord w)
      | Inr (Some last_failed_id) \<Rightarrow>
          (case resume_scan last_failed_id 0 song_info_list of
             Inl e \<Rightarrow> (Inl e, w)
           | Inr (Some index) \<Rightarrow>
               (Inr (drop (index + 1) song_info_list),
                print (MsgResumeAt (index + 1) (song_id (song_info_list ! index))) w)
           | Inr None \<Rightarrow> (Inr song_info_list, print MsgNoMatch w)))"

section \<open>The remote calls of a workflow\<close>

text \<open>
  The test of \<^verbatim>\<open>_has_uploaded\<close> on the decoded answer:
  \<^verbatim>\<open>response_data.get("code") == 200 and len(response_data["data"]) != 0\<close>.
\<close>

definition cloud_has_song :: "pyval \<Rightarrow> exn + bool" where
  "cloud_has_song response_data =
     (case py_get response_data ''code'' PNone of
        Inl e \<Rightarrow> Inl e
      | Inr code \<Rightarrow>
          if py_eq_int code 200 then
            (case py_item_str response_data ''data'' of
               Inl e \<Rightarrow> Inl e
             | Inr d \<Rightarrow> (case py_len d of Inl e \<Rightarrow> Inl e | Inr n \<Rightarrow> Inr (n \<noteq> 0)))
          else Inr False)"

text \<open>
  \<^verbatim>\<open>_has_uploaded\<close>: one request; only the decoding of the body and the test are
  inside the \<^verbatim>\<open>try\<close>, and only \<^verbatim>\<open>json.JSONDecodeError\<close> is caught.
\<close>

definition has_uploaded :: "remote \<Rightarrow> int \<Rightarrow> world \<Rightarrow> (exn + bool) \<times> world" where
  "has_uploaded env sid w =
     (case http_get env (CloudDetail sid) w of
        (Raises e, w1) \<Rightarrow>
          if e = JSONDecodeError then (Inr False, print MsgCloudDetailNotJson w1) else (Inl e, w1)
      | (Body response_data, w1) \<Rightarrow>
          (case cloud_has_song response_data of
             Inl e \<Rightarrow> (Inl e, w1)
           | Inr True \<Rightarrow> (Inr True, w1)
           | Inr False \<Rightarrow>
               (case py_get response_data ''message'' PNone of
                  Inl e \<Rightarrow> (Inl e, w1)
                | Inr m \<Rightarrow> (Inr False, print (MsgCloudDetailFailed m) w1))))"

text \<open>\<^verbatim>\<open>get_song_details\<close>: the list under \<^verbatim>\<open>songs\<close> when the answer has code 200.\<close>

definition get_song_details :: "remote \<Rightarrow> int list \<Rightarrow> world \<Rightarrow> (exn + pyval) \<times> world" where
  "get_song_details env song_ids w =
     (case http_get env (SongDetail song_ids) (print (MsgSongDetailUrl song_ids) w) of
        (Raises e, w1) \<Rightarrow>
          if e = JSONDecodeError then (Inr (PList []), print MsgSongDetailNotJson w1) else (Inl e, w1)
      | (Body response_data, w1) \<Rightarrow>
          (case py_get response_data ''code'' PNone of
             Inl e \<Rightarrow> (Inl e, w1)
           | Inr code \<Rightarrow>
               if py_eq_int code 200 then
                 (case py_get response_data ''songs'' (PList []) of
                    Inl e \<Rightarrow> (Inl e, w1)
                  | Inr songs \<Rightarrow> (Inr songs, w1))
               else
                 (case py_get response_data ''message'' PNone of
                    Inl e \<Rightarrow> (Inl e, w1)
                  | Inr m \<Rightarrow> (Inr (PList []), print (MsgSongDetailFailed m) w1))))"

text \<open>
  The two lists \<^verbatim>\<open>_send_upload_request\<close> reads off the answer of the import:
  \<^verbatim>\<open>response_data.get("data", {}).get("successSongs", [])\<close> and the same with
  \<^verbatim>\<open>failed\<close>.
\<close>

definition import_result :: "pyval \<Rightarrow> exn + pyval \<times> pyval" where
  "import_result response_data =
     (case py_get response_data ''data'' (PDict []) of
        Inl e \<Rightarrow> Inl e
      | Inr d \<Rightarrow>
          (case py_get d ''successSongs'' (PList []) of
             Inl e \<Rightarrow> Inl e
           | Inr success_songs \<Rightarrow>
               (case py_get d ''failed'' (PList []) of
                  Inl e \<Rightarrow> Inl e
                | Inr failed \<Rightarrow> Inr (success_songs, failed))))"

text \<open>\<^verbatim>\<open>all(f["code"] == -100 for f in failed)\<close>, which stops at the first failure of the test.\<close>

fun all_code_exists :: "pyval list \<Rightarrow> exn + bool" where
  "all_code_exists [] = Inr True"
| "all_code_exists (f # fs) =
     (case py_item_str f ''code'' of
        Inl e \<Rightarrow> Inl e
      | Inr c \<Rightarrow> if py_eq_int c (- 100) then all_code_exists fs else Inr False)"

text \<open>
  \<^verbatim>\<open>_send_upload_request\<close>: the descriptor must carry \<^verbatim>\<open>artist\<close> and \<^verbatim>\<open>album\<close>; one
  request, whose exceptions are not caught here; the identifier goes to the ledger
  only when no song was imported and every reported failure has code -100.
\<close>

definition send_upload_request :: "remote \<Rightarrow> song_info \<Rightarrow> world \<Rightarrow> (exn + unit) \<times> world" where
  "send_upload_request env si w =
     (if artist si = None \<or> album si = None then (Inl KeyError, w)
      else
        (case http_get env (CloudImport si) w of
           (Raises e, w1) \<Rightarrow> (Inl e, w1)
         | (Body response_data, w1) \<Rightarrow>
             (case import_result response_data of
                Inl e \<Rightarrow> (Inl e, w1)
              | Inr (success_songs, failed) \<Rightarrow>
                  if truthy success_songs then (Inr (), print (MsgImportOk (song_id si)) w1)
                  else
                    (let w2 = print (MsgImportFailed (song_id si) failed) w1 in
                     case py_iter failed of
                       Inl e \<Rightarrow> (Inl e, w2)
                     | Inr fs \<Rightarrow>
                         (case all_code_exists fs of
                            Inl e \<Rightarrow> (Inl e, w2)
                          | Inr True \<Rightarrow>
                              (Inr (), save_failed_id (song_id si) (print (MsgFileExists (song_id si)) w2))
                          | Inr False \<Rightarrow> (Inr (), w2))))))"

section \<open>The workflow of one song\<close>

text \<open>
  What \<^verbatim>\<open>_try_to_upload_one_song\<close> reads off a non-empty \<^verbatim>\<open>song_details\<close>:
  \<^verbatim>\<open>song_details[0]["name"]\<close>, \<^verbatim>\<open>song_details[0]["ar"][0]["name"]\<close> and
  \<^verbatim>\<open>song_details[0]["al"]["name"]\<close>, in this order.
\<close>

definition song_fields :: "pyval \<Rightarrow> exn + pyval \<times> pyval \<times> pyval" where
  "song_fields song_details =
     (case py_item_0 song_details of Inl e \<Rightarrow> Inl e | Inr d0 \<Rightarrow>
     (case py_item_str d0 ''name'' of Inl e \<Rightarrow> Inl e | Inr song_name \<Rightarrow>
     (case py_item_str d0 ''ar'' of Inl e \<Rightarrow> Inl e | Inr ar \<Rightarrow>
     (case py_item_0 ar of Inl e \<Rightarrow> Inl e | Inr ar0 \<Rightarrow>
     (case py_item_str ar0 ''name'' of Inl e \<Rightarrow> Inl e | Inr song_artist \<Rightarrow>
     (case py_item_str d0 ''al'' of Inl e \<Rightarrow> Inl e | Inr al \<Rightarrow>
     (case py_item_str al ''name'' of Inl e \<Rightarrow> Inl e | Inr song_album \<Rightarrow>
        Inr (song_name, song_artist, song_album))))))))"

definition try_to_upload_one_song :: "remote \<Rightarrow> song_info \<Rightarrow> world \<Rightarrow> (exn + unit) \<times> world" where
  "try_to_upload_one_song env si w =
     (case py_int (song_id si) of
        Inl e \<Rightarrow> (Inl e, w)
      | Inr sid \<Rightarrow>
          (case has_uploaded env sid (print (MsgImporting sid) w) of
             (Inl e, w1) \<Rightarrow> (Inl e, w1)
           | (Inr True, w1) \<Rightarrow> (Inr (), print MsgAlreadyUploaded w1)
           | (Inr False, w1) \<Rightarrow>
               (case get_song_details env [sid] w1 of
                  (Inl e, w2) \<Rightarrow> (Inl e, w2)
                | (Inr song_details, w2) \<Rightarrow>
                    if truthy song_details then
                      (case song_fields song_details of
                         Inl e \<Rightarrow> (Inl e, w2)
                       | Inr (song_name, song_artist, song_album) \<Rightarrow>
                           send_upload_request env
                             (si\<lparr>artist := Some song_artist, album := Some song_album\<rparr>)
                             (print (MsgSongFields song_name song_artist song_album) w2))
                    else (Inr (), w2))))"

text \<open>
  \<^verbatim>\<open>_upload_one_song\<close>, the boundary of a workflow: \<^verbatim>\<open>except Exception\<close> prints the
  exception and writes \<^verbatim>\<open>song_info["id"]\<close> to the ledger.
\<close>

definition upload_one_song :: "remote \<Rightarrow> song_info \<Rightarrow> world \<Rightarrow> (exn + unit) \<times> world" where
  "upload_one_song env si w =
     (case try_to_upload_one_song env si w of
        (Inl e, w1) \<Rightarrow> (Inr (), save_failed_id (song_id si) (print (MsgWorkflowException e) w1))
      | (Inr u, w1) \<Rightarrow> (Inr u, w1))"

section \<open>Reading the catalog\<close>

text \<open>
  \<^verbatim>\<open>_read_songs_data\<close>: the file is opened outside the \<^verbatim>\<open>try\<close>; \<^verbatim>\<open>json.load\<close>, a
  parameter here, gives the decoded document or raises; only \<^verbatim>\<open>json.JSONDecodeError\<close>
  is caught. The file is \<open>None\<close> when it does not exist.
\<close>

definition read_songs_data ::
  "(string \<Rightarrow> exn + pyval) \<Rightarrow> string option \<Rightarrow> world \<Rightarrow> (exn + pyval) \<times> world" where
  "read_songs_data json_load file w =
     (case file of
        None \<Rightarrow> (Inl FileNotFoundError, w)
      | Some content \<Rightarrow>
          (case json_load content of
             Inl e \<Rightarrow>
               if e = JSONDecodeError then (Inr (PList []), print MsgCatalogFormatError w)
               else (Inl e, w)
           | Inr data \<Rightarrow>
               (case py_get data ''data'' (PList []) of
                  Inl e \<Rightarrow> (Inl e, w)
                | Inr songs_data \<Rightarrow> (Inr songs_data, w))))"

text \<open>The dict \<^verbatim>\<open>get_all_song_info\<close> builds from one record of the catalog.\<close>

definition song_info_of :: "pyval \<Rightarrow> exn + song_info" where
  "song_info_of song =
     (case py_get song ''id'' PNone of Inl e \<Rightarrow> Inl e | Inr i \<Rightarrow>
     (case py_get song ''size'' PNone of Inl e \<Rightarrow> Inl e | Inr sz \<Rightarrow>
     (case py_get song ''ext'' PNone of Inl e \<Rightarrow> Inl e | Inr ex \<Rightarrow>
     (case py_get song ''bitrate'' PNone of Inl e \<Rightarrow> Inl e | Inr br \<Rightarrow>
     (case py_get song ''md5'' PNone of Inl e \<Rightarrow> Inl e | Inr m \<Rightarrow>
        Inr \<lparr>song_id = i, song_size = sz, ext = ex, bitrate = br, md5 = m,
             artist = None, album = None\<rparr>)))))"

fun song_info_loop :: "pyval list \<Rightarrow> exn + song_info list" where
  "song_info_loop [] = Inr []"
| "song_info_loop (song # songs) =
     (case song_info_of song of
        Inl e \<Rightarrow> Inl e
      | Inr si \<Rightarrow> (case song_info_loop songs of Inl e \<Rightarrow> Inl e | Inr sis \<Rightarrow> Inr (si # sis)))"

definition get_all_song_info :: "pyval \<Rightarrow> exn + song_info list" where
  "get_all_song_info songs_data =
     (case py_iter songs_data of Inl e \<Rightarrow> Inl e | Inr songs \<Rightarrow> song_info_loop songs)"

text \<open>
  \<^verbatim>\<open>upload\<close> passes the result of these steps and of the resume calculator to
  \<^verbatim>\<open>_async_upload_songs\<close>, which hands all workflows to \<^verbatim>\<open>asyncio.gather\<close> under an
  \<^verbatim>\<open>asyncio.Semaphore\<close>. Several workflows are then under way at once and their
  requests and ledger writes interleave as the event loop schedules them. These two
  functions are not embedded: the functions above describe one workflow from its first
  step to its last, and say nothing of the order in which the steps of several
  workflows follow one another.
\<close>

section \<open>A catalog and a remote service to run the definitions on\<close>

text \<open>
  Six songs and a remote service that has song 1 in the cloud already, imports song 2,
  rejects song 3 with a code other than -100, knows no details of song 4, rejects
  song 5 with code -100, and drops the connection on the import of any other song.
\<close>

definition example_song :: "int \<Rightarrow> song_info" where
  "example_song n =
     \<lparr>song_id = PInt n, song_size = PInt 4096, ext = PStr ''mp3'', bitrate = PInt 320,
      md5 = PStr ''9e107d9d'', artist = None, album = None\<rparr>"

definition fresh_world :: world where
  "fresh_world = \<lparr>ledger = None, calls = [], console = []\<rparr>"

definition example_details :: pyval where
  "example_details =
     PDict [(''code'', PInt 200),
            (''songs'', PList [PDict [(''name'', PStr ''Title''),
                                     (''ar'', PList [PDict [(''name'', PStr ''Singer'')]]),
                                     (''al'', PDict [(''name'', PStr ''Record'')])]])]"

definition import_answer :: "pyval \<Rightarrow> pyval \<Rightarrow> pyval" where
  "import_answer success_songs failed =
     PDict [(''code'', PInt 200),
            (''data'', PDict [(''successSongs'', success_songs), (''failed'', failed)])]"

definition example_remote :: remote where
  "example_remote history call =
     (case call of
        CloudDetail n \<Rightarrow>
          Body (PDict [(''code'', PInt 200),
                       (''data'', PList (if n = 1 then [PDict [(''songId'', PInt 1)]] else []))])
      | SongDetail ids \<Rightarrow>
          if ids = [4] then Body (PDict [(''code'', PInt 200), (''songs'', PList [])])
          else Body example_details
      | CloudImport si \<Rightarrow>
          if song_id si = PInt 2 then
            Body (import_answer (PList [PDict [(''songId'', PInt 2)]]) (PList []))
          else if song_id si = PInt 3 then
            Body (import_answer (PList []) (PList [PDict [(''songId'', PInt 3), (''code'', PInt (- 200))]]))
          else if song_id si = PInt 5 then
            Body (import_answer (PList []) (PList [PDict [(''songId'', PInt 5), (''code'', PInt (- 100))]]))
          else Raises (OtherError ''connection reset''))"

text \<open>
  \<^verbatim>\<open>json.load\<close> on the documents of the examples: the array \<^verbatim>\<open>[1, 2]\<close> is decoded;
  any other content, such as the same text cut off before its closing bracket, stands
  for text that is no JSON.
\<close>

definition example_json_load :: "string \<Rightarrow> exn + pyval" where
  "example_json_load content =
     (if content = ''[1, 2]'' then Inr (PList [PInt 1, PInt 2]) else Inl JSONDecodeError)"

section \<open>An integer written to the ledger is read back\<close>

text \<open>
  The line \<^verbatim>\<open>_save_failed_id\<close> writes for an integer id is the decimal numeral of the
  id and a line feed, and \<^verbatim>\<open>_get_last_failed_id\<close> then reads that integer.
\<close>

lemma digit_char_props:
  assumes "d < 10"
  shows "is_digit (digit_char d)" and "digit_val (digit_char d) = d"
    and "\<not> is_space (digit_char d)"
    and "digit_char d \<noteq> CHR ''-''" and "digit_char d \<noteq> CHR ''+''"
proof -
  have o: "(of_char (digit_char d) :: nat) = 48 + d"
    using assms by (simp add: digit_char_def)
  show "is_digit (digit_char d)" using o assms by (simp add: is_digit_def)
  show "digit_val (digit_char d) = d" using o by (simp add: digit_val_def)
  show "\<not> is_space (digit_char d)" using o assms by (simp add: is_space_def)
  show "digit_char d \<noteq> CHR ''-''"
  proof
    assume "digit_char d = CHR ''-''"
    then have "(of_char (digit_char d) :: nat) = 45" by simp
    with o show False by simp
  qed
  show "digit_char d \<noteq> CHR ''+''"
  proof
    assume "digit_char d = CHR ''+''"
    then have "(of_char (digit_char d) :: nat) = 43" by simp
    with o show False by simp
  qed
qed

lemma parse_digits_foldl:
  "list_all is_digit ds \<Longrightarrow> parse_digits acc ds = Some (foldl (\<lambda>a c. 10 * a + digit_val c) acc ds)"
  by (induction acc ds rule: parse_digits.induct) auto

lemma dec_nat_digits: "list_all (\<lambda>c. is_digit c \<and> \<not> is_space c \<and> c \<noteq> CHR ''-'' \<and> c \<noteq> CHR ''+'') (dec_nat n)"
proof (induction n rule: dec_nat.induct)
  case (1 n)
  show ?case
  proof (cases "n < 10")
    case True
    then show ?thesis using digit_char_props[of n] by (simp add: dec_nat.simps[of n])
  next
    case False
    have "n mod 10 < 10" by simp
    from digit_char_props[OF this] 1 False show ?thesis
      by (simp add: dec_nat.simps[of n])
  qed
qed

lemma dec_nat_value: "foldl (\<lambda>a c. 10 * a + digit_val c) 0 (dec_nat n) = n"
proof (induction n rule: dec_nat.induct)
  case (1 n)
  show ?case
  proof (cases "n < 10")
    case True
    then show ?thesis using digit_char_props(2)[of n] by (simp add: dec_nat.simps[of n])
  next
    case False
    have "n mod 10 < 10" by simp
    from digit_char_props(2)[OF this] 1 False show ?thesis
      by (simp add: dec_nat.simps[of n])
  qed
qed

lemma dec_nat_not_Nil: "dec_nat n \<noteq> []"
  by (simp add: dec_nat.simps[of n])

lemma parse_unsigned_dec_nat: "parse_unsigned (dec_nat n) = Some n"
proof (cases "dec_nat n")
  case Nil
  then show ?thesis using dec_nat_not_Nil by simp
next
  case (Cons c cs)
  have d: "list_all is_digit (c # cs)"
    using dec_nat_digits[of n] Cons by (simp add: list_all_iff)
  have "foldl (\<lambda>a c. 10 * a + digit_val c) 0 (c # cs) = n"
    using dec_nat_value[of n] Cons by simp
  then have "foldl (\<lambda>a c. 10 * a + digit_val c) (digit_val c) cs = n" by simp
  with d Cons show ?thesis
    by (simp add: parse_unsigned_def parse_digits_foldl)
qed

lemma strip_no_blank_ends:
  assumes "s \<noteq> []" and "\<not> is_space (hd s)" and "\<not> is_space (last s)"
  shows "strip s = s"
proof -
  have "dropWhile is_space s = s"
    using assms(1,2) by (cases s) simp_all
  moreover have "dropWhile is_space (rev s) = rev s"
    using assms(1,3) by (cases "rev s") (simp_all add: last_rev[symmetric] hd_rev)
  ultimately show ?thesis by (simp add: strip_def)
qed

lemma strip_line:
  assumes "s \<noteq> []" and "\<not> is_space (hd s)" and "\<not> is_space (last s)"
  shows "strip (s @ [char_of (10::nat)]) = s"
proof -
  have nl: "is_space (char_of (10::nat))" by (simp add: is_space_def)
  have "dropWhile is_space (s @ [char_of (10::nat)]) = s @ [char_of (10::nat)]"
    using assms(1,2) by (cases s) simp_all
  moreover have "dropWhile is_space (rev s) = rev s"
    using assms(1,3) by (cases "rev s") (simp_all add: hd_rev)
  ultimately show ?thesis using nl by (simp add: strip_def)
qed

lemma dec_nat_ends:
  "\<not> is_space (hd (dec_nat n))" "\<not> is_space (last (dec_nat n))"
   "hd (dec_nat n) \<noteq> CHR ''-''" "hd (dec_nat n) \<noteq> CHR ''+''"
  using dec_nat_digits[of n] dec_nat_not_Nil[of n]
  by (auto simp: list_all_iff)

lemma int_of_str_dec_nat: "int_of_str (dec_nat n) = Inr (int n)"
proof -
  have s: "strip (dec_nat n) = dec_nat n"
    using dec_nat_not_Nil dec_nat_ends(1,2) by (rule strip_no_blank_ends)
  obtain c cs where c: "dec_nat n = c # cs"
    using dec_nat_not_Nil[of n] by (cases "dec_nat n") auto
  have "c \<noteq> CHR ''-''" "c \<noteq> CHR ''+''"
    using dec_nat_ends(3,4)[of n] c by simp_all
  moreover have "parse_unsigned (c # cs) = Some n"
    using parse_unsigned_dec_nat[of n] c by simp
  ultimately show ?thesis
    using s c by (simp add: int_of_str_def)
qed

lemma int_of_str_dec_int: "int_of_str (dec_int i) = Inr i"
proof (cases "i < 0")
  case False
  then show ?thesis by (simp add: dec_int_def int_of_str_dec_nat)
next
  case True
  have m: "\<not> is_space (CHR ''-'')" by (simp add: is_space_def)
  have "strip (CHR ''-'' # dec_nat (nat (- i))) = CHR ''-'' # dec_nat (nat (- i))"
    using dec_nat_not_Nil[of "nat (- i)"] dec_nat_ends(2)[of "nat (- i)"] m
    by (intro strip_no_blank_ends) simp_all
  with True show ?thesis
    by (simp add: dec_int_def int_of_str_def parse_unsigned_dec_nat)
qed

lemma strip_dec_int_line: "strip (dec_int i @ [char_of (10::nat)]) = dec_int i"
proof (rule strip_line)
  show "dec_int i \<noteq> []" by (simp add: dec_int_def dec_nat_not_Nil)
  show "\<not> is_space (hd (dec_int i))"
    using dec_nat_ends(1) by (simp add: dec_int_def is_space_def)
  show "\<not> is_space (last (dec_int i))"
    using dec_nat_ends(2) dec_nat_not_Nil by (simp add: dec_int_def)
qed

lemma saved_id_is_read_back:
  "get_last_failed_id (save_failed_id (PInt i) w) = Inr (Some i)"
  by (simp add: get_last_failed_id_def save_failed_id_def strip_dec_int_line int_of_str_dec_int)

section \<open>Properties of the resume calculator\<close>

lemma ledger_print [simp]: "ledger (print m w) = ledger w"
  by (simp add: print_def)

lemma calls_print [simp]: "calls (print m w) = calls w"
  by (simp add: print_def)

lemma console_print [simp]: "console (print m w) = console w @ [m]"
  by (simp add: print_def)

text \<open>
  The loop finds the first descriptor with the marker for an id, provided the ids it
  meets on the way are integers.
\<close>

lemma resume_scan_found:
  "i < length xs \<Longrightarrow> py_int (song_id (xs ! i)) = Inr m \<Longrightarrow>
   (\<forall>j<i. \<exists>k. py_int (song_id (xs ! j)) = Inr k \<and> k \<noteq> m) \<Longrightarrow>
   resume_scan m idx xs = Inr (Some (idx + i))"
proof (induction xs arbitrary: i idx)
  case Nil
  then show ?case by simp
next
  case (Cons x xs)
  show ?case
  proof (cases i)
    case 0
    with Cons.prems show ?thesis by simp
  next
    case (Suc i')
    from Cons.prems(3) Suc obtain k where k: "py_int (song_id x) = Inr k" "k \<noteq> m"
      by fastforce
    have rest: "\<forall>j<i'. \<exists>k. py_int (song_id (xs ! j)) = Inr k \<and> k \<noteq> m"
      using Cons.prems(3) Suc by fastforce
    have "resume_scan m (Suc idx) xs = Inr (Some (Suc idx + i'))"
      using Cons.IH[of i' "Suc idx"] Cons.prems(1,2) Suc rest by simp
    with k Suc show ?thesis by simp
  qed
qed

lemma resume_scan_none:
  "(\<forall>s\<in>set xs. \<exists>k. py_int (song_id s) = Inr k \<and> k \<noteq> m) \<Longrightarrow> resume_scan m idx xs = Inr None"
  by (induction xs arbitrary: idx) auto

lemma resume_scan_bound:
  "resume_scan m idx xs = Inr (Some j) \<Longrightarrow> idx \<le> j \<and> j < idx + length xs"
proof (induction xs arbitrary: idx)
  case Nil
  then show ?case by simp
next
  case (Cons x xs)
  then show ?case
    by (fastforce split: sum.splits if_splits)
qed

lemma last_failed_id_Some:
  "ledger w = Some ls \<Longrightarrow> ls \<noteq> [] \<Longrightarrow> int_of_str (strip (last ls)) = Inr m \<Longrightarrow>
   get_last_failed_id w = Inr (Some m)"
  by (simp add: get_last_failed_id_def last_map)

text \<open>With no ledger file the whole list comes back.\<close>

lemma resume_absent_ledger:
  "ledger w = None \<Longrightarrow> get_resume_song_info_list xs w = (Inr xs, print MsgNoFailureRecord w)"
  by (simp add: get_resume_song_info_list_def get_last_failed_id_def)

text \<open>
  Claim C2 says that the resume computation returns the full descriptor list unchanged
  when the ledger file is absent and also when it is empty. The first half is
  \<open>resume_absent_ledger\<close>. For a ledger file that exists and holds no line,
  \<^verbatim>\<open>ids[-1]\<close> raises \<^verbatim>\<open>IndexError\<close> and no list is returned, whatever the descriptors.
\<close>

theorem resume_empty_ledger_raises:
  "get_resume_song_info_list xs (w\<lparr>ledger := Some []\<rparr>) = (Inl IndexError, w\<lparr>ledger := Some []\<rparr>)"
  by (simp add: get_resume_song_info_list_def get_last_failed_id_def)

text \<open>
  Claim C3: for a non-empty ledger whose last entry, read as an integer, is the id of
  the descriptor at index \<open>i\<close>, the first index with that id, the resume computation
  returns exactly the sub-sequence starting at index \<open>i + 1\<close>, of length
  \<open>length xs - i - 1\<close>.
\<close>

theorem resume_after_marker:
  assumes "ledger w = Some ls" and "ls \<noteq> []" and "int_of_str (strip (last ls)) = Inr m"
    and "i < length xs" and "py_int (song_id (xs ! i)) = Inr m"
    and "\<forall>j<i. \<exists>k. py_int (song_id (xs ! j)) = Inr k \<and> k \<noteq> m"
  shows "\<exists>ys w'. get_resume_song_info_list xs w = (Inr ys, w') \<and> ys = drop (i + 1) xs
           \<and> length ys = length xs - i - 1"
proof -
  have "resume_scan m 0 xs = Inr (Some i)"
    using resume_scan_found[OF assms(4,5,6), of 0] by simp
  moreover have "get_last_failed_id w = Inr (Some m)"
    using assms(1,2,3) by (rule last_failed_id_Some)
  ultimately show ?thesis
    by (simp add: get_resume_song_info_list_def)
qed

theorem resume_after_marker_witness:
  "int_of_str (strip (last [''2'' @ [char_of (10::nat)]])) = Inr 2
   \<and> py_int (song_id (map example_song [1, 2, 3] ! 1)) = Inr 2
   \<and> fst (get_resume_song_info_list (map example_song [1, 2, 3])
            (fresh_world\<lparr>ledger := Some [''2'' @ [char_of (10::nat)]]\<rparr>)) = Inr [example_song 3]"
proof -
  let ?w = "fresh_world\<lparr>ledger := Some [''2'' @ [char_of (10::nat)]]\<rparr>"
  let ?xs = "map example_song [1, 2, 3]"
  have h1: "ledger ?w = Some [''2'' @ [char_of (10::nat)]]" by simp
  have h2: "[''2'' @ [char_of (10::nat)]] \<noteq> []" by simp
  have h3: "int_of_str (strip (last [''2'' @ [char_of (10::nat)]])) = Inr 2" by code_simp
  have h4: "1 < length ?xs" by simp
  have h5: "py_int (song_id (?xs ! 1)) = Inr 2" by (simp add: example_song_def)
  have h6: "\<forall>j<1. \<exists>k. py_int (song_id (?xs ! j)) = Inr k \<and> k \<noteq> 2"
    by (simp add: example_song_def)
  from resume_after_marker[OF h1 h2 h3 h4 h5 h6] h3 h5 show ?thesis
    by auto
qed

text \<open>
  Claim C4: for a non-empty ledger whose last entry, read as an integer, is the id of
  no descriptor of the list, the resume computation returns the full descriptor list
  unchanged and prints the note that nothing matched.
\<close>

theorem resume_no_match:
  assumes "ledger w = Some ls" and "ls \<noteq> []" and "int_of_str (strip (last ls)) = Inr m"
    and "\<forall>s\<in>set xs. \<exists>k. py_int (song_id s) = Inr k \<and> k \<noteq> m"
  shows "get_resume_song_info_list xs w = (Inr xs, print MsgNoMatch w)"
proof -
  have "resume_scan m 0 xs = Inr None"
    using assms(4) by (rule resume_scan_none)
  moreover have "get_last_failed_id w = Inr (Some m)"
    using assms(1,2,3) by (rule last_failed_id_Some)
  ultimately show ?thesis
    by (simp add: get_resume_song_info_list_def)
qed

theorem resume_no_match_witness:
  "int_of_str (strip (last [''7'' @ [char_of (10::nat)]])) = Inr 7
   \<and> get_resume_song_info_list (map example_song [1, 2, 3])
        (fresh_world\<lparr>ledger := Some [''7'' @ [char_of (10::nat)]]\<rparr>)
      = (Inr (map example_song [1, 2, 3]),
         print MsgNoMatch (fresh_world\<lparr>ledger := Some [''7'' @ [char_of (10::nat)]]\<rparr>))"
proof -
  let ?w = "fresh_world\<lparr>ledger := Some [''7'' @ [char_of (10::nat)]]\<rparr>"
  let ?xs = "map example_song [1, 2, 3]"
  have h1: "ledger ?w = Some [''7'' @ [char_of (10::nat)]]" by simp
  have h2: "[''7'' @ [char_of (10::nat)]] \<noteq> []" by simp
  have h3: "int_of_str (strip (last [''7'' @ [char_of (10::nat)]])) = Inr 7" by code_simp
  have h4: "\<forall>s\<in>set ?xs. \<exists>k. py_int (song_id s) = Inr k \<and> k \<noteq> 7"
    by (simp add: example_song_def)
  from resume_no_match[OF h1 h2 h3 h4] h3 show ?thesis
    by simp
qed

text \<open>
  Claim C10: whatever the descriptor list and the ledger, a list returned by the resume
  computation is a contiguous suffix of the input list: the whole list, or the tail
  that follows some index, with order and elements as they were.
\<close>

theorem resume_is_suffix:
  assumes "get_resume_song_info_list xs w = (Inr ys, w')"
  shows "suffix ys xs \<and> (ys = xs \<or> (\<exists>i<length xs. ys = drop (Suc i) xs))"
proof -
  have alt: "ys = xs \<or> (\<exists>i<length xs. ys = drop (Suc i) xs)"
    using assms resume_scan_bound[of _ 0 xs]
    by (auto simp: get_resume_song_info_list_def split: sum.splits option.splits)
  then show ?thesis
    by (auto simp: suffix_drop)
qed

theorem resume_is_suffix_witness:
  "get_resume_song_info_list (map example_song [1, 2, 3])
        (fresh_world\<lparr>ledger := Some [''1'' @ [char_of (10::nat)]]\<rparr>)
      = (Inr (map example_song [2, 3]),
         print (MsgResumeAt 1 (PInt 1)) (fresh_world\<lparr>ledger := Some [''1'' @ [char_of (10::nat)]]\<rparr>))
   \<and> suffix (map example_song [2, 3]) (map example_song [1, 2, 3])"
proof -
  have h: "get_resume_song_info_list (map example_song [1, 2, 3])
        (fresh_world\<lparr>ledger := Some [''1'' @ [char_of (10::nat)]]\<rparr>)
      = (Inr (map example_song [2, 3]),
         print (MsgResumeAt 1 (PInt 1)) (fresh_world\<lparr>ledger := Some [''1'' @ [char_of (10::nat)]]\<rparr>))"
    by code_simp
  from resume_is_suffix[OF h] h show ?thesis
    by simp
qed

section \<open>Properties of the workflow and of the catalog read\<close>

lemma ledger_lines_cong: "ledger w1 = ledger w \<Longrightarrow> ledger_lines w1 = ledger_lines w"
  by (simp add: ledger_lines_def)

lemma ledger_save_failed_id [simp]:
  "ledger (save_failed_id v w) = Some (ledger_lines w @ [py_str v @ [char_of (10::nat)]])"
  by (simp add: save_failed_id_def)

lemma calls_save_failed_id [simp]: "calls (save_failed_id v w) = calls w"
  by (simp add: save_failed_id_def)

lemma http_get_frame:
  "http_get env c w = (r, w1) \<Longrightarrow>
   r = env (calls w) c \<and> ledger w1 = ledger w \<and> calls w1 = calls w @ [c] \<and> console w1 = console w"
  by (auto simp: http_get_def)

lemma has_uploaded_frame:
  assumes "has_uploaded env n w = (r, w1)"
  shows "ledger w1 = ledger w \<and> calls w1 = calls w @ [CloudDetail n]"
proof (cases "http_get env (CloudDetail n) w")
  case (Pair a wa)
  note fr = http_get_frame[OF Pair]
  from assms Pair fr show ?thesis
    by (auto simp: has_uploaded_def split: response.splits sum.splits bool.splits if_splits)
qed

lemma get_song_details_frame:
  assumes "get_song_details env ids w = (r, w1)"
  shows "ledger w1 = ledger w \<and> calls w1 = calls w @ [SongDetail ids]"
proof (cases "http_get env (SongDetail ids) (print (MsgSongDetailUrl ids) w)")
  case (Pair a wa)
  note fr = http_get_frame[OF Pair]
  from assms Pair fr show ?thesis
    by (auto simp: get_song_details_def split: response.splits sum.splits if_splits)
qed

lemma all_code_exists_True:
  "(\<forall>f\<in>set fs. py_item_str f ''code'' = Inr (PInt (- 100))) \<Longrightarrow> all_code_exists fs = Inr True"
  by (induction fs) auto

lemma send_upload_request_raises:
  assumes "send_upload_request env si w = (Inl e, w1)"
  shows "ledger w1 = ledger w"
proof (cases "http_get env (CloudImport si) w")
  case (Pair a wa)
  note fr = http_get_frame[OF Pair]
  from assms Pair fr show ?thesis
    by (auto simp: send_upload_request_def Let_def
        split: response.splits sum.splits bool.splits if_splits prod.splits)
qed

lemma send_upload_request_rejected:
  assumes "artist si \<noteq> None" and "album si \<noteq> None"
    and "env (calls w) (CloudImport si) = Body response_data"
    and "import_result response_data = Inr (success_songs, failed)"
    and "\<not> truthy success_songs"
    and "py_iter failed = Inr fs"
    and "\<forall>f\<in>set fs. py_item_str f ''code'' = Inr (PInt (- 100))"
  shows "\<exists>w'. send_upload_request env si w = (Inr (), w')
           \<and> ledger w' = Some (ledger_lines w @ [py_str (song_id si) @ [char_of (10::nat)]])
           \<and> calls w' = calls w @ [CloudImport si]"
proof -
  have all: "all_code_exists fs = Inr True"
    using assms(7) by (rule all_code_exists_True)
  have lines: "ledger_lines (print (MsgFileExists (song_id si))
                 (print (MsgImportFailed (song_id si) failed) (w\<lparr>calls := calls w @ [CloudImport si]\<rparr>)))
               = ledger_lines w"
    by (rule ledger_lines_cong) simp
  show ?thesis
    using assms(1-6) all lines
    by (simp add: send_upload_request_def http_get_def Let_def)
qed

lemma try_to_upload_raises:
  assumes "try_to_upload_one_song env si w = (Inl e, w1)"
  shows "ledger w1 = ledger w"
proof (cases "py_int (song_id si)")
  case (Inl a)
  with assms show ?thesis by (simp add: try_to_upload_one_song_def)
next
  case (Inr n)
  obtain r wa where hu: "has_uploaded env n (print (MsgImporting n) w) = (r, wa)"
    by (cases "has_uploaded env n (print (MsgImporting n) w)")
  have la: "ledger wa = ledger w"
    using has_uploaded_frame[OF hu] by simp
  obtain d wb where gd: "get_song_details env [n] wa = (d, wb)"
    by (cases "get_song_details env [n] wa")
  have lb: "ledger wb = ledger w"
    using get_song_details_frame[OF gd] la by simp
  from assms Inr hu gd la lb show ?thesis
    by (auto simp: try_to_upload_one_song_def
        split: sum.splits bool.splits if_splits prod.splits
        dest!: send_upload_request_raises)
qed

lemma upload_one_song_returns: "\<exists>w'. upload_one_song env si w = (Inr (), w')"
  by (cases "try_to_upload_one_song env si w")
     (auto simp: upload_one_song_def split: sum.splits)

text \<open>
  Claim C1, which holds with one more condition: for every workflow whose import request
  the remote service answers with no imported song and with failures that all carry
  code -100 (none at all included), exactly one line is appended to the failure ledger,
  and the line is that song's id. The workflow is one whose existence check said no
  and whose detail lookup gave the fields of the song.
\<close>

theorem import_rejected_as_existing_recorded:
  assumes "py_int (song_id si) = Inr n"
    and "has_uploaded env n (print (MsgImporting n) w) = (Inr False, w1)"
    and "get_song_details env [n] w1 = (Inr details, w2)"
    and "truthy details"
    and "song_fields details = Inr (nm, ar, al)"
    and "env (calls w2) (CloudImport (si\<lparr>artist := Some ar, album := Some al\<rparr>)) = Body response_data"
    and "import_result response_data = Inr (success_songs, failed)"
    and "\<not> truthy success_songs"
    and "py_iter failed = Inr fs"
    and "\<forall>f\<in>set fs. py_item_str f ''code'' = Inr (PInt (- 100))"
  shows "\<exists>w'. upload_one_song env si w = (Inr (), w')
           \<and> ledger w' = Some (ledger_lines w @ [py_str (song_id si) @ [char_of (10::nat)]])"
proof -
  let ?si = "si\<lparr>artist := Some ar, album := Some al\<rparr>"
  let ?w3 = "print (MsgSongFields nm ar al) w2"
  have l2: "ledger w2 = ledger w"
    using has_uploaded_frame[OF assms(2)] get_song_details_frame[OF assms(3)] by simp
  have "\<exists>w'. send_upload_request env ?si ?w3 = (Inr (), w')
           \<and> ledger w' = Some (ledger_lines ?w3 @ [py_str (song_id ?si) @ [char_of (10::nat)]])
           \<and> calls w' = calls ?w3 @ [CloudImport ?si]"
    using assms(6-10) by (intro send_upload_request_rejected) simp_all
  then obtain w' where w': "send_upload_request env ?si ?w3 = (Inr (), w')"
    and lw': "ledger w' = Some (ledger_lines ?w3 @ [py_str (song_id si) @ [char_of (10::nat)]])"
    by auto
  have "ledger_lines ?w3 = ledger_lines w"
    by (rule ledger_lines_cong) (simp add: l2)
  with lw' have "ledger w' = Some (ledger_lines w @ [py_str (song_id si) @ [char_of (10::nat)]])"
    by simp
  moreover have "upload_one_song env si w = (Inr (), w')"
    using assms(1-5) w' by (simp add: upload_one_song_def try_to_upload_one_song_def)
  ultimately show ?thesis by blast
qed

text \<open>Song 5 of the example is rejected with code -100, and its id reaches the ledger.\<close>

theorem import_rejected_as_existing_recorded_witness:
  "has_uploaded example_remote 5 (print (MsgImporting 5) fresh_world)
     = (Inr False, snd (has_uploaded example_remote 5 (print (MsgImporting 5) fresh_world)))
   \<and> import_result (import_answer (PList []) (PList [PDict [(''songId'', PInt 5), (''code'', PInt (- 100))]]))
     = Inr (PList [], PList [PDict [(''songId'', PInt 5), (''code'', PInt (- 100))]])
   \<and> ledger (snd (upload_one_song example_remote (example_song 5) fresh_world))
     = Some [''5'' @ [char_of (10::nat)]]"
proof -
  let ?w0 = "print (MsgImporting 5) fresh_world"
  let ?w1 = "snd (has_uploaded example_remote 5 ?w0)"
  let ?w2 = "snd (get_song_details example_remote [5] ?w1)"
  let ?details = "PList [PDict [(''name'', PStr ''Title''),
                               (''ar'', PList [PDict [(''name'', PStr ''Singer'')]]),
                               (''al'', PDict [(''name'', PStr ''Record'')])]]"
  let ?failed = "PList [PDict [(''songId'', PInt 5), (''code'', PInt (- 100))]]"
  have h1: "py_int (song_id (example_song 5)) = Inr 5"
    by (simp add: example_song_def)
  have h2: "has_uploaded example_remote 5 ?w0 = (Inr False, ?w1)"
    by code_simp
  have h3: "get_song_details example_remote [5] ?w1 = (Inr ?details, ?w2)"
    by code_simp
  have h4: "truthy ?details" by simp
  have h5: "song_fields ?details = Inr (PStr ''Title'', PStr ''Singer'', PStr ''Record'')"
    by code_simp
  have h6: "example_remote (calls ?w2)
              (CloudImport ((example_song 5)\<lparr>artist := Some (PStr ''Singer''), album := Some (PStr ''Record'')\<rparr>))
            = Body (import_answer (PList []) ?failed)"
    by (simp add: example_remote_def example_song_def)
  have h7: "import_result (import_answer (PList []) ?failed) = Inr (PList [], ?failed)"
    by code_simp
  have h8: "\<not> truthy (PList [])" by simp
  have h9: "py_iter ?failed = Inr [PDict [(''songId'', PInt 5), (''code'', PInt (- 100))]]" by simp
  have h10: "\<forall>f\<in>set [PDict [(''songId'', PInt 5), (''code'', PInt (- 100))]].
               py_item_str f ''code'' = Inr (PInt (- 100))"
    by simp
  have l: "ledger_lines fresh_world = []"
    by (simp add: ledger_lines_def fresh_world_def)
  have s: "py_str (song_id (example_song 5)) = ''5''"
    by code_simp
  from import_rejected_as_existing_recorded[OF h1 h2 h3 h4 h5 h6 h7 h8 h9 h10] h2 h7 l s
  show ?thesis
    by auto
qed

text \<open>
  Without the condition the claim fails: the import of song 3 is answered with no
  imported song and one failure of code -200; the workflow ends normally after its
  three requests and the ledger is as it was.
\<close>

theorem import_rejected_other_code_not_recorded:
  "import_result (import_answer (PList []) (PList [PDict [(''songId'', PInt 3), (''code'', PInt (- 200))]]))
     = Inr (PList [], PList [PDict [(''songId'', PInt 3), (''code'', PInt (- 200))]])
   \<and> example_remote [CloudDetail 3, SongDetail [3]]
        (CloudImport ((example_song 3)\<lparr>artist := Some (PStr ''Singer''), album := Some (PStr ''Record'')\<rparr>))
     = Body (import_answer (PList []) (PList [PDict [(''songId'', PInt 3), (''code'', PInt (- 200))]]))
   \<and> calls (snd (upload_one_song example_remote (example_song 3) fresh_world))
     = [CloudDetail 3, SongDetail [3],
        CloudImport ((example_song 3)\<lparr>artist := Some (PStr ''Singer''), album := Some (PStr ''Record'')\<rparr>)]
   \<and> fst (upload_one_song example_remote (example_song 3) fresh_world) = Inr ()
   \<and> ledger (snd (upload_one_song example_remote (example_song 3) fresh_world)) = ledger fresh_world"
  by code_simp

text \<open>
  Claim C5: a workflow whose existence check reports the song present in the cloud ends
  as skipped, having sent exactly one request, the existence check, and having
  appended nothing to the failure ledger.
\<close>

theorem skipped_one_call_no_append:
  assumes "py_int (song_id si) = Inr n"
    and "has_uploaded env n (print (MsgImporting n) w) = (Inr True, w1)"
  shows "\<exists>w'. upload_one_song env si w = (Inr (), w')
           \<and> calls w' = calls w @ [CloudDetail n]
           \<and> ledger w' = ledger w
           \<and> console w' = console w1 @ [MsgAlreadyUploaded]"
proof -
  have "upload_one_song env si w = (Inr (), print MsgAlreadyUploaded w1)"
    using assms by (simp add: upload_one_song_def try_to_upload_one_song_def)
  moreover have "calls w1 = calls w @ [CloudDetail n]" and "ledger w1 = ledger w"
    using has_uploaded_frame[OF assms(2)] by simp_all
  ultimately show ?thesis by simp
qed

text \<open>Song 1 of the example is in the cloud already.\<close>

theorem skipped_one_call_no_append_witness:
  "has_uploaded example_remote 1 (print (MsgImporting 1) fresh_world)
     = (Inr True, snd (has_uploaded example_remote 1 (print (MsgImporting 1) fresh_world)))
   \<and> upload_one_song example_remote (example_song 1) fresh_world
     = (Inr (), \<lparr>ledger = None, calls = [CloudDetail 1], console = [MsgImporting 1, MsgAlreadyUploaded]\<rparr>)"
proof -
  let ?w0 = "print (MsgImporting 1) fresh_world"
  let ?w1 = "snd (has_uploaded example_remote 1 ?w0)"
  have h1: "py_int (song_id (example_song 1)) = Inr 1"
    by (simp add: example_song_def)
  have h2: "has_uploaded example_remote 1 ?w0 = (Inr True, ?w1)"
    by code_simp
  have c: "console ?w1 = [MsgImporting 1]"
    by code_simp
  from skipped_one_call_no_append[OF h1 h2] c h2 show ?thesis
    by (auto simp: fresh_world_def)
qed

text \<open>
  Claim C7: a workflow whose detail lookup returns nothing (an empty list, or any other
  value that counts as false) ends without an import request and without an append to
  the failure ledger: its requests are the existence check and the detail lookup.
\<close>

theorem no_details_no_import_no_append:
  assumes "py_int (song_id si) = Inr n"
    and "has_uploaded env n (print (MsgImporting n) w) = (Inr False, w1)"
    and "get_song_details env [n] w1 = (Inr details, w2)"
    and "\<not> truthy details"
  shows "upload_one_song env si w = (Inr (), w2)
           \<and> calls w2 = calls w @ [CloudDetail n, SongDetail [n]]
           \<and> ledger w2 = ledger w"
proof -
  have "upload_one_song env si w = (Inr (), w2)"
    using assms by (simp add: upload_one_song_def try_to_upload_one_song_def)
  moreover have "calls w2 = calls w @ [CloudDetail n, SongDetail [n]]" and "ledger w2 = ledger w"
    using has_uploaded_frame[OF assms(2)] get_song_details_frame[OF assms(3)] by simp_all
  ultimately show ?thesis by simp
qed

text \<open>The remote service of the example knows no details of song 4.\<close>

theorem no_details_no_import_no_append_witness:
  "get_song_details example_remote [4] (snd (has_uploaded example_remote 4 (print (MsgImporting 4) fresh_world)))
     = (Inr (PList []),
        snd (get_song_details example_remote [4]
               (snd (has_uploaded example_remote 4 (print (MsgImporting 4) fresh_world)))))
   \<and> fst (upload_one_song example_remote (example_song 4) fresh_world) = Inr ()
   \<and> calls (snd (upload_one_song example_remote (example_song 4) fresh_world)) = [CloudDetail 4, SongDetail [4]]
   \<and> ledger (snd (upload_one_song example_remote (example_song 4) fresh_world)) = None"
proof -
  let ?w0 = "print (MsgImporting 4) fresh_world"
  let ?w1 = "snd (has_uploaded example_remote 4 ?w0)"
  let ?w2 = "snd (get_song_details example_remote [4] ?w1)"
  have h1: "py_int (song_id (example_song 4)) = Inr 4"
    by (simp add: example_song_def)
  have h2: "has_uploaded example_remote 4 ?w0 = (Inr False, ?w1)"
    by code_simp
  have h3: "get_song_details example_remote [4] ?w1 = (Inr (PList []), ?w2)"
    by code_simp
  have h4: "\<not> truthy (PList [])" by simp
  from no_details_no_import_no_append[OF h1 h2 h3 h4] h3 show ?thesis
    by (simp add: fresh_world_def)
qed

text \<open>
  The boundary of a workflow: when the workflow proper raises, \<^verbatim>\<open>_upload_one_song\<close>
  prints the exception and appends the line of the song's id to the ledger, which the
  workflow proper has not touched; in every case it returns normally.
\<close>

lemma upload_one_song_records_exception:
  assumes "try_to_upload_one_song env si w = (Inl e, w1)"
  shows "upload_one_song env si w
           = (Inr (), save_failed_id (song_id si) (print (MsgWorkflowException e) w1))
         \<and> ledger (save_failed_id (song_id si) (print (MsgWorkflowException e) w1))
           = Some (ledger_lines w @ [py_str (song_id si) @ [char_of (10::nat)]])"
proof -
  have "ledger w1 = ledger w"
    using assms by (rule try_to_upload_raises)
  then have "ledger_lines (print (MsgWorkflowException e) w1) = ledger_lines w"
    by (intro ledger_lines_cong) simp
  with assms show ?thesis
    by (simp add: upload_one_song_def)
qed

text \<open>
  Only the decoding error is caught: a document that decodes to something other than
  an object makes \<^verbatim>\<open>data.get\<close> raise, and the exception leaves the catalog read.
\<close>

lemma read_songs_data_not_an_object:
  "json_load content = Inr (PList xs) \<Longrightarrow>
   read_songs_data json_load (Some content) w = (Inl AttributeError, w)"
  by (simp add: read_songs_data_def)

text \<open>
  Claim C8, which holds for the one kind of malformed catalog the code catches: for
  every catalog file whose content is no JSON, so that \<^verbatim>\<open>json.load\<close> raises
  \<^verbatim>\<open>JSONDecodeError\<close>, reading the catalog raises nothing, prints the format error and
  yields an empty list, from which no descriptor is built.
\<close>

theorem undecodable_catalog_gives_empty_list:
  assumes "json_load content = Inl JSONDecodeError"
  shows "read_songs_data json_load (Some content) w = (Inr (PList []), print MsgCatalogFormatError w)
           \<and> get_all_song_info (PList []) = Inr []"
  using assms by (simp add: read_songs_data_def get_all_song_info_def)

text \<open>A catalog cut off in the middle of a list.\<close>

theorem undecodable_catalog_gives_empty_list_witness:
  "example_json_load ''[1, 2'' = Inl JSONDecodeError
   \<and> read_songs_data example_json_load (Some ''[1, 2'') fresh_world
     = (Inr (PList []), print MsgCatalogFormatError fresh_world)
   \<and> get_all_song_info (PList []) = Inr []"
proof -
  have h: "example_json_load ''[1, 2'' = Inl JSONDecodeError"
    by (simp add: example_json_load_def)
  from undecodable_catalog_gives_empty_list[of example_json_load "''[1, 2''" fresh_world, OF h] h
  show ?thesis
    by simp
qed

text \<open>
  For malformed catalogs at large the claim fails: a file that holds the array
  \<^verbatim>\<open>[1, 2]\<close> in place of an object with a \<^verbatim>\<open>data\<close> field is decoded, \<^verbatim>\<open>data.get\<close>
  raises \<^verbatim>\<open>AttributeError\<close>, which leaves the catalog read, and nothing is printed.
\<close>

theorem array_catalog_escapes_catalog_read:
  "example_json_load ''[1, 2]'' = Inr (PList [PInt 1, PInt 2])
   \<and> read_songs_data example_json_load (Some ''[1, 2]'') fresh_world
     = (Inl AttributeError, fresh_world)"
  by (simp add: example_json_load_def read_songs_data_def)

end
